theory Spec2Isabelle
  imports Complex_Main "HOL-Library.Multiset" "HOL-Library.Char_ord" "HOL-Library.List_Lexorder"
    "HOL-Library.Product_Lexorder"
begin

section \<open>The record store\<close>

text \<open>
  The program keeps three SQLite tables (\<^verbatim>\<open>init_db\<close>): \<^verbatim>\<open>employees\<close>, \<^verbatim>\<open>work_hours\<close> and
  \<^verbatim>\<open>adjustments\<close>. A table is the list of its rows in rowid order, a row is a record of its
  columns.

  \<^item> \<^verbatim>\<open>INTEGER\<close> columns are \<open>int\<close>, \<^verbatim>\<open>TEXT\<close> columns are \<open>string\<close>; the two columns that
    lack \<^verbatim>\<open>NOT NULL\<close> (\<^verbatim>\<open>notes\<close>, \<^verbatim>\<open>description\<close>) are \<open>string option\<close>.
  \<^item> \<^verbatim>\<open>REAL\<close> columns (\<^verbatim>\<open>hourly_rate\<close>, \<^verbatim>\<open>hours\<close>, \<^verbatim>\<open>amount\<close>) are \<open>real\<close>: sums and products
    are the exact ones, the rounding of the 8-byte binary floating point numbers that
    SQLite and pandas compute with is not part of the model.
  \<^item> A date column holds the text of \<^verbatim>\<open>date.isoformat()\<close>, \<^verbatim>\<open>YYYY-MM-DD\<close> with leading
    zeros, and \<^verbatim>\<open>BETWEEN\<close> compares these texts. On such texts the order of the strings
    is the order of the days, so a date is modelled by its day number
    (\<^verbatim>\<open>date.toordinal()\<close>), an \<open>int\<close>, and the day after \<open>d\<close> is \<open>d + 1\<close>.
\<close>

type_synonym date = int

record employee =
  emp_id :: int
  emp_full_name :: string
  role_title :: string
  emp_hourly_rate :: real
  emp_start_date :: date

record work_hours_entry =
  wh_id :: int
  wh_employee_id :: int
  work_date :: date
  hours :: real
  wh_notes :: "string option"

record adjustment_entry =
  adj_id :: int
  adj_employee_id :: int
  adjustment_date :: date
  adjustment_type :: string
  amount :: real
  description :: "string option"

record store =
  employees :: "employee list"
  work_hours :: "work_hours_entry list"
  adjustments :: "adjustment_entry list"

text \<open>\<^verbatim>\<open>init_db\<close> on a fresh file: \<^verbatim>\<open>CREATE TABLE IF NOT EXISTS\<close> leaves three empty tables.\<close>

definition init_db :: store where
  "init_db = \<lparr>employees = [], work_hours = [], adjustments = []\<rparr>"

text \<open>
  \<^verbatim>\<open>INTEGER PRIMARY KEY AUTOINCREMENT\<close>: the new row gets one more than the largest id the
  table has held, starting at 1. The program never deletes a row, so the largest id ever
  held is the largest id in the table.
\<close>

definition next_rowid :: "int list \<Rightarrow> int" where
  "next_rowid ids = fold max ids 0 + 1"

subsection \<open>Writes\<close>

text \<open>
  Each of the three writers runs one \<^verbatim>\<open>INSERT\<close> and commits. The schema declares
  \<^verbatim>\<open>FOREIGN KEY (employee_id) REFERENCES employees (id)\<close> on both entry tables, but
  \<^verbatim>\<open>get_connection\<close> opens the connection with \<^verbatim>\<open>sqlite3.connect\<close> and nothing else:
  SQLite checks foreign keys only on a connection that has run
  \<^verbatim>\<open>PRAGMA foreign_keys = ON\<close>, so here the clause is parsed and not enforced, and the
  \<^verbatim>\<open>INSERT\<close> appends the row whatever \<^verbatim>\<open>employee_id\<close> is.
\<close>

definition add_employee :: "string \<Rightarrow> string \<Rightarrow> real \<Rightarrow> date \<Rightarrow> store \<Rightarrow> store" where
  "add_employee name title rate started db =
     db\<lparr>employees := employees db @
       [\<lparr>emp_id = next_rowid (map emp_id (employees db)), emp_full_name = name,
         role_title = title, emp_hourly_rate = rate, emp_start_date = started\<rparr>]\<rparr>"

definition add_work_hours :: "int \<Rightarrow> date \<Rightarrow> real \<Rightarrow> string option \<Rightarrow> store \<Rightarrow> store" where
  "add_work_hours employee_id day h memo db =
     db\<lparr>work_hours := work_hours db @
       [\<lparr>wh_id = next_rowid (map wh_id (work_hours db)), wh_employee_id = employee_id,
         work_date = day, hours = h, wh_notes = memo\<rparr>]\<rparr>"

definition add_adjustment ::
  "int \<Rightarrow> date \<Rightarrow> string \<Rightarrow> real \<Rightarrow> string option \<Rightarrow> store \<Rightarrow> store" where
  "add_adjustment employee_id day kind amt descr db =
     db\<lparr>adjustments := adjustments db @
       [\<lparr>adj_id = next_rowid (map adj_id (adjustments db)), adj_employee_id = employee_id,
         adjustment_date = day, adjustment_type = kind, amount = amt,
         description = descr\<rparr>]\<rparr>"

subsection \<open>What the libraries leave open: the order of equal keys\<close>

text \<open>
  \<^verbatim>\<open>DataFrame.sort_values\<close> is called with its default \<^verbatim>\<open>kind='quicksort'\<close>, which pandas
  documents as not stable, and SQL leaves the order of rows with equal \<^verbatim>\<open>ORDER BY\<close> keys
  open. The source fixes neither, so the model takes the sorting routine as a parameter
  and assumes of it only what every sorting routine does: it returns the rows it was
  given, each as often as it was given, in ascending order of the key.
\<close>

definition sorts_by :: "('a \<Rightarrow> 'k::linorder) \<Rightarrow> ('a list \<Rightarrow> 'a list) \<Rightarrow> bool" where
  "sorts_by key srt \<longleftrightarrow> (\<forall>xs. mset (srt xs) = mset xs \<and> sorted (map key (srt xs)))"

subsection \<open>Range-filtered reads\<close>

text \<open>\<^verbatim>\<open>x BETWEEN a AND b\<close> is \<^verbatim>\<open>a <= x AND x <= b\<close>.\<close>

definition sql_between :: "date \<Rightarrow> date \<Rightarrow> date \<Rightarrow> bool" where
  "sql_between x a b \<longleftrightarrow> a \<le> x \<and> x \<le> b"

text \<open>
  A read returns its result and the store, which a \<^verbatim>\<open>SELECT\<close> leaves as it found it.
\<close>

definition load_employees :: "store \<Rightarrow> employee list \<times> store" where
  "load_employees db = (employees db, db)"

record work_hours_view =
  v_id :: int
  v_full_name :: string
  v_employee_id :: int
  v_work_date :: date
  v_hours :: real
  v_notes :: "string option"

record adjustment_view =
  a_id :: int
  a_full_name :: string
  a_employee_id :: int
  a_adjustment_date :: date
  a_adjustment_type :: string
  a_amount :: real
  a_description :: "string option"

text \<open>
  \<^verbatim>\<open>load_work_hours\<close>: the inner join pairs an entry with every employee whose id it
  carries; an entry whose \<^verbatim>\<open>employee_id\<close> names no employee yields no row.
\<close>

definition load_work_hours ::
  "(work_hours_view list \<Rightarrow> work_hours_view list) \<Rightarrow> date \<Rightarrow> date \<Rightarrow> store \<Rightarrow>
     work_hours_view list \<times> store" where
  "load_work_hours order_by start_date end_date db =
     (order_by (concat (map (\<lambda>w.
          map (\<lambda>e. \<lparr>v_id = wh_id w, v_full_name = emp_full_name e,
                     v_employee_id = wh_employee_id w, v_work_date = work_date w,
                     v_hours = hours w, v_notes = wh_notes w\<rparr>)
            (filter (\<lambda>e. emp_id e = wh_employee_id w) (employees db)))
        (filter (\<lambda>w. sql_between (work_date w) start_date end_date) (work_hours db)))),
      db)"

definition load_adjustments ::
  "(adjustment_view list \<Rightarrow> adjustment_view list) \<Rightarrow> date \<Rightarrow> date \<Rightarrow> store \<Rightarrow>
     adjustment_view list \<times> store" where
  "load_adjustments order_by start_date end_date db =
     (order_by (concat (map (\<lambda>a.
          map (\<lambda>e. \<lparr>a_id = adj_id a, a_full_name = emp_full_name e,
                     a_employee_id = adj_employee_id a,
                     a_adjustment_date = adjustment_date a,
                     a_adjustment_type = adjustment_type a, a_amount = amount a,
                     a_description = description a\<rparr>)
            (filter (\<lambda>e. emp_id e = adj_employee_id a) (employees db)))
        (filter (\<lambda>a. sql_between (adjustment_date a) start_date end_date)
           (adjustments db)))),
      db)"

section \<open>The aggregator: the three grouped sums\<close>

text \<open>
  \<^verbatim>\<open>SELECT k, SUM(v) ... GROUP BY k\<close>: one row for each key that occurs, holding the sum of
  the values of that key. (SQLite returns the groups in ascending key order; the merges
  below look rows up by key and do not depend on it.)
\<close>

definition group_sum :: "(int \<times> real) list \<Rightarrow> (int \<times> real) list" where
  "group_sum kvs =
     map (\<lambda>k. (k, sum_list (map snd (filter (\<lambda>kv. fst kv = k) kvs))))
       (sort (remdups (map fst kvs)))"

definition query_employees :: "store \<Rightarrow> (int \<times> string \<times> real) list \<times> store" where
  "query_employees db =
     (map (\<lambda>e. (emp_id e, emp_full_name e, emp_hourly_rate e)) (employees db), db)"

definition query_hours :: "date \<Rightarrow> date \<Rightarrow> store \<Rightarrow> (int \<times> real) list \<times> store" where
  "query_hours start_date end_date db =
     (group_sum (map (\<lambda>w. (wh_employee_id w, hours w))
        (filter (\<lambda>w. sql_between (work_date w) start_date end_date) (work_hours db))),
      db)"

definition query_adjustments ::
  "string \<Rightarrow> date \<Rightarrow> date \<Rightarrow> store \<Rightarrow> (int \<times> real) list \<times> store" where
  "query_adjustments kind start_date end_date db =
     (group_sum (map (\<lambda>a. (adj_employee_id a, amount a))
        (filter (\<lambda>a. sql_between (adjustment_date a) start_date end_date \<and>
                      adjustment_type a = kind) (adjustments db))),
      db)"

definition query_bonuses :: "date \<Rightarrow> date \<Rightarrow> store \<Rightarrow> (int \<times> real) list \<times> store" where
  "query_bonuses = query_adjustments ''bonus''"

definition query_deductions :: "date \<Rightarrow> date \<Rightarrow> store \<Rightarrow> (int \<times> real) list \<times> store" where
  "query_deductions = query_adjustments ''deduction''"

section \<open>The payroll calculator\<close>

text \<open>
  \<^verbatim>\<open>left.merge(right, how="left", ...)\<close> on one key column: the rows of \<open>left\<close> in their
  order, each once for every row of \<open>right\<close> with its key, and once with missing values
  (\<open>None\<close>, pandas' NaN) when \<open>right\<close> has no such row. The key of a left row can itself
  be missing; the right frames here come from \<^verbatim>\<open>NOT NULL\<close> columns and have no missing
  key, so a left row whose key is missing matches nothing.
\<close>

definition merge_left ::
  "('l \<Rightarrow> int option) \<Rightarrow> 'l list \<Rightarrow> (int \<times> real) list \<Rightarrow> ('l \<times> (int \<times> real) option) list" where
  "merge_left key left right =
     concat (map (\<lambda>l.
        case filter (\<lambda>r. key l = Some (fst r)) right of
          [] \<Rightarrow> [(l, None)]
        | ms \<Rightarrow> map (\<lambda>r. (l, Some r)) ms) left)"

text \<open>\<^verbatim>\<open>Series.fillna(0)\<close> on one cell.\<close>

definition fillna :: "real option \<Rightarrow> real" where
  "fillna v = (case v of None \<Rightarrow> 0 | Some x \<Rightarrow> x)"

record payroll_row =
  full_name :: string
  hourly_rate :: real
  total_hours :: real
  gross_pay :: real
  bonus_total :: real
  deduction_total :: real
  net_pay :: real

text \<open>
  A row of the frame after the three merges: the employee's \<^verbatim>\<open>id\<close>, \<^verbatim>\<open>full_name\<close> and
  \<^verbatim>\<open>hourly_rate\<close>, then what each merge added. The first merge (\<^verbatim>\<open>left_on="id"\<close>,
  \<^verbatim>\<open>right_on="employee_id"\<close>) adds the columns \<^verbatim>\<open>employee_id\<close> and \<^verbatim>\<open>total_hours\<close> of
  \<^verbatim>\<open>hours\<close>; the second and third merge on that \<^verbatim>\<open>employee_id\<close> column.
\<close>

type_synonym merged1 = "(int \<times> string \<times> real) \<times> (int \<times> real) option"
type_synonym merged2 = "merged1 \<times> (int \<times> real) option"
type_synonym merged3 = "merged2 \<times> (int \<times> real) option"

definition employee_id_column1 :: "merged1 \<Rightarrow> int option" where
  "employee_id_column1 r = map_option fst (snd r)"

definition employee_id_column2 :: "merged2 \<Rightarrow> int option" where
  "employee_id_column2 r = employee_id_column1 (fst r)"

text \<open>
  Lines 192 to 210: fill the missing sums with 0, compute \<^verbatim>\<open>gross_pay\<close> and \<^verbatim>\<open>net_pay\<close>,
  keep the seven report columns.
\<close>

definition payroll_columns :: "merged3 \<Rightarrow> payroll_row" where
  "payroll_columns r =
     (let emp = fst (fst (fst r));
          th = fillna (map_option snd (snd (fst (fst r))));
          bt = fillna (map_option snd (snd (fst r)));
          dt = fillna (map_option snd (snd r));
          gp = th * snd (snd emp);
          np = gp + bt - dt
      in \<lparr>full_name = fst (snd emp), hourly_rate = snd (snd emp), total_hours = th,
          gross_pay = gp, bonus_total = bt, deduction_total = dt, net_pay = np\<rparr>)"

text \<open>
  \<^verbatim>\<open>calculate_payroll\<close>. An empty roster returns the empty frame before any other query
  runs. \<open>sort_values\<close> is the routine behind \<^verbatim>\<open>.sort_values("full_name")\<close>.
\<close>

definition calculate_payroll ::
  "(payroll_row list \<Rightarrow> payroll_row list) \<Rightarrow> date \<Rightarrow> date \<Rightarrow> store \<Rightarrow>
     payroll_row list \<times> store" where
  "calculate_payroll sort_values start_date end_date conn =
     (let (emps, c1) = query_employees conn in
      if emps = [] then ([], c1)
      else
        let (hrs, c2) = query_hours start_date end_date c1;
            (bonuses, c3) = query_bonuses start_date end_date c2;
            (deductions, c4) = query_deductions start_date end_date c3;
            payroll1 = merge_left (\<lambda>e. Some (fst e)) emps hrs;
            payroll2 = merge_left employee_id_column1 payroll1 bonuses;
            payroll3 = merge_left employee_id_column2 payroll2 deductions
        in (sort_values (map payroll_columns payroll3), c4))"

section \<open>The entry layer's payroll page\<close>

text \<open>
  \<^verbatim>\<open>render_payroll_section\<close>, with the two dates the widgets return as arguments. What the
  page shows is a value: the error box, the info box, or the report with the total of
  \<^verbatim>\<open>net_pay\<close> and the two detail tables. The function raises nothing: on a reversed range it
  shows the error box and returns before \<^verbatim>\<open>calculate_payroll\<close> is called.
\<close>

datatype page =
    St_error string
  | St_info string
  | St_payroll "payroll_row list" real "work_hours_view list" "adjustment_view list"

definition render_payroll_section ::
  "(payroll_row list \<Rightarrow> payroll_row list) \<Rightarrow>
   (work_hours_view list \<Rightarrow> work_hours_view list) \<Rightarrow>
   (adjustment_view list \<Rightarrow> adjustment_view list) \<Rightarrow>
   date \<Rightarrow> date \<Rightarrow> store \<Rightarrow> page \<times> store" where
  "render_payroll_section sort_values order_hours order_adjustments start_date end_date db =
     (if start_date > end_date
      then (St_error ''La fecha de inicio no puede ser mayor que la fecha fin.'', db)
      else
        let (payroll, c1) = calculate_payroll sort_values start_date end_date db in
        if payroll = []
        then (St_info ''No hay movimientos para el rango seleccionado.'', c1)
        else
          let (hrs, c2) = load_work_hours order_hours start_date end_date c1;
              (adjs, c3) = load_adjustments order_adjustments start_date end_date c2
          in (St_payroll payroll (sum_list (map net_pay payroll)) hrs adjs, c3))"

section \<open>Notions the properties are stated with\<close>

text \<open>
  The value a grouped sum holds for an employee: the sum of the employee's group, and 0
  when the frame has no group for the employee, which is what a left join on the
  employee's id followed by \<^verbatim>\<open>fillna(0)\<close> yields.
\<close>

definition aggregate_of :: "(int \<times> real) list \<Rightarrow> int \<Rightarrow> real" where
  "aggregate_of frame k = fillna (map_of frame k)"

text \<open>The hours, and the amounts of one kind, that the entries of one employee hold in a range.\<close>

definition hours_in :: "date \<Rightarrow> date \<Rightarrow> store \<Rightarrow> int \<Rightarrow> real list" where
  "hours_in s e db k =
     map hours
       (filter (\<lambda>w. sql_between (work_date w) s e \<and> wh_employee_id w = k) (work_hours db))"

definition amounts_in :: "string \<Rightarrow> date \<Rightarrow> date \<Rightarrow> store \<Rightarrow> int \<Rightarrow> real list" where
  "amounts_in kind s e db k =
     map amount
       (filter (\<lambda>a. (sql_between (adjustment_date a) s e \<and> adjustment_type a = kind) \<and>
                     adj_employee_id a = k) (adjustments db))"

text \<open>
  The report row of one employee, in closed form (lemma \<open>calculate_payroll_rows\<close> proves
  that \<^const>\<open>calculate_payroll\<close> computes it). The bonus and deduction sums enter the row
  only when the employee has a work-hour entry in the range: the second and third merge
  join on the \<^verbatim>\<open>employee_id\<close> column that the first merge took from \<^verbatim>\<open>hours\<close>, and that
  column is missing in the row of an employee without such an entry.
\<close>

definition report_row :: "date \<Rightarrow> date \<Rightarrow> store \<Rightarrow> employee \<Rightarrow> payroll_row" where
  "report_row s e db emp =
     (let worked = (hours_in s e db (emp_id emp) \<noteq> []);
          th = sum_list (hours_in s e db (emp_id emp));
          bt = (if worked then sum_list (amounts_in ''bonus'' s e db (emp_id emp)) else 0);
          dt = (if worked then sum_list (amounts_in ''deduction'' s e db (emp_id emp)) else 0)
      in \<lparr>full_name = emp_full_name emp, hourly_rate = emp_hourly_rate emp, total_hours = th,
          gross_pay = th * emp_hourly_rate emp, bonus_total = bt, deduction_total = dt,
          net_pay = th * emp_hourly_rate emp + bt - dt\<rparr>)"

text \<open>The row of an employee without activity.\<close>

definition zero_row :: "employee \<Rightarrow> payroll_row" where
  "zero_row emp =
     \<lparr>full_name = emp_full_name emp, hourly_rate = emp_hourly_rate emp, total_hours = 0,
      gross_pay = 0, bonus_total = 0, deduction_total = 0, net_pay = 0\<rparr>"



subsection \<open>Concrete sorting routines and stores\<close>

text \<open>
  Two routines that sort by \<^verbatim>\<open>full_name\<close>: one keeps rows of equal name in the order it
  received them, the other reverses them.
\<close>

definition stable_sort_values :: "payroll_row list \<Rightarrow> payroll_row list" where
  "stable_sort_values = sort_key full_name"


text \<open>
  The example of the spec: employee A, rate 10, logs 8 hours on day 1 and 2 hours on
  day 2, has a bonus of 50 on day 1 and a deduction of 5 on day 2; employee B has no
  entry.
\<close>

definition example_db :: store where
  "example_db =
     add_adjustment 1 2 ''deduction'' 5 None
       (add_adjustment 1 1 ''bonus'' 50 None
         (add_work_hours 1 2 2 None
           (add_work_hours 1 1 8 None
             (add_employee ''B'' ''clerk'' 20 1
               (add_employee ''A'' ''clerk'' 10 1 init_db)))))"


text \<open>The example with a bonus of 30 on day 2 for employee B, who logs no hours.\<close>

definition bonus_only_db :: store where
  "bonus_only_db = add_adjustment 2 2 ''bonus'' 30 None example_db"

text \<open>Routines for the two \<^verbatim>\<open>ORDER BY\<close> clauses that keep rows of equal date in place.\<close>

definition order_by_work_date :: "work_hours_view list \<Rightarrow> work_hours_view list" where
  "order_by_work_date = sort_key v_work_date"

definition order_by_adjustment_date :: "adjustment_view list \<Rightarrow> adjustment_view list" where
  "order_by_adjustment_date = sort_key a_adjustment_date"

text \<open>The example with two more entries of employee A, both dated day 9.\<close>

definition later_entries_db :: store where
  "later_entries_db =
     add_adjustment 1 9 ''bonus'' 7 None (add_work_hours 1 9 4 None example_db)"

section \<open>Sorting routines\<close>

lemma sorts_by_mset: "sorts_by key srt \<Longrightarrow> mset (srt xs) = mset xs"
  by (simp add: sorts_by_def)

lemma sorts_by_set: "sorts_by key srt \<Longrightarrow> set (srt xs) = set xs"
  by (metis sorts_by_mset set_mset_mset)

lemma sorts_by_length: "sorts_by key srt \<Longrightarrow> length (srt xs) = length xs"
  by (metis sorts_by_mset size_mset)


lemma sorts_by_sort_key: "sorts_by key (sort_key key)"
  by (simp add: sorts_by_def)

lemma sorts_by_stable: "sorts_by full_name stable_sort_values"
  by (simp add: stable_sort_values_def sorts_by_sort_key)


section \<open>Grouped sums and left merges\<close>

lemma filter_key_distinct:
  "distinct (map fst right) \<Longrightarrow>
   filter (\<lambda>r. k = fst r) right = (case map_of right k of None \<Rightarrow> [] | Some v \<Rightarrow> [(k, v)])"
proof (induction right)
  case Nil
  then show ?case by simp
next
  case (Cons r rs)
  obtain a b where r: "r = (a, b)" by (cases r)
  show ?case
  proof (cases "k = a")
    case True
    with Cons.prems r have "k \<notin> fst ` set rs" by auto
    then have "filter (\<lambda>r. k = fst r) rs = []" by (auto simp: filter_empty_conv)
    with True r show ?thesis by simp
  next
    case False
    with Cons r show ?thesis by simp
  qed
qed

text \<open>When the keys of the right frame are distinct, a left merge keeps the left rows one for one.\<close>

lemma merge_left_distinct:
  assumes "distinct (map fst right)"
  shows "merge_left key left right =
     map (\<lambda>l. (l, case key l of None \<Rightarrow> None
                  | Some k \<Rightarrow> map_option (Pair k) (map_of right k))) left"
proof -
  have one: "(case filter (\<lambda>r. key l = Some (fst r)) right of
          [] \<Rightarrow> [(l, None)]
        | ms \<Rightarrow> map (\<lambda>r. (l, Some r)) ms) =
       [(l, case key l of None \<Rightarrow> None | Some k \<Rightarrow> map_option (Pair k) (map_of right k))]"
    for l
  proof (cases "key l")
    case None
    then show ?thesis by simp
  next
    case (Some k)
    then show ?thesis
      by (simp add: filter_key_distinct [OF assms] split: option.split)
  qed
  show ?thesis
    unfolding merge_left_def by (induction left) (simp_all add: one)
qed

lemma distinct_group_sum: "distinct (map fst (group_sum kvs))"
  by (simp add: group_sum_def comp_def)

lemma map_of_group_sum:
  "map_of (group_sum kvs) k =
     (if k \<in> fst ` set kvs then Some (sum_list (map snd (filter (\<lambda>kv. fst kv = k) kvs)))
      else None)"
proof -
  have "map_of (map (\<lambda>k. (k, f k)) ks) k = (if k \<in> set ks then Some (f k) else None)"
    for f :: "int \<Rightarrow> real" and ks
    by (induction ks) auto
  then show ?thesis
    by (simp add: group_sum_def)
qed

lemma aggregate_of_group_sum:
  "aggregate_of (group_sum kvs) k = sum_list (map snd (filter (\<lambda>kv. fst kv = k) kvs))"
proof (cases "k \<in> fst ` set kvs")
  case True
  then show ?thesis by (simp add: aggregate_of_def fillna_def map_of_group_sum)
next
  case False
  then have "filter (\<lambda>kv. fst kv = k) kvs = []"
    by (auto simp: filter_empty_conv)
  with False show ?thesis by (simp add: aggregate_of_def fillna_def map_of_group_sum)
qed

lemma group_rows:
  "map snd (filter (\<lambda>kv. fst kv = k) (map (\<lambda>x. (f x, g x)) (filter P xs))) =
   map g (filter (\<lambda>x. P x \<and> f x = k) xs)"
  by (induction xs) auto

text \<open>What the three queries hold for an employee.\<close>

lemma query_hours_aggregate:
  "aggregate_of (fst (query_hours s e db)) k = sum_list (hours_in s e db k)"
  by (simp add: query_hours_def aggregate_of_group_sum group_rows hours_in_def)

lemma query_adjustments_aggregate:
  "aggregate_of (fst (query_adjustments kind s e db)) k = sum_list (amounts_in kind s e db k)"
  by (simp add: query_adjustments_def aggregate_of_group_sum group_rows amounts_in_def)

lemma query_hours_absent:
  "map_of (fst (query_hours s e db)) k = None \<longleftrightarrow> hours_in s e db k = []"
  by (auto simp: query_hours_def map_of_group_sum hours_in_def filter_empty_conv image_iff)

lemma distinct_query_hours: "distinct (map fst (fst (query_hours s e db)))"
  by (simp add: query_hours_def distinct_group_sum)

lemma distinct_query_adjustments: "distinct (map fst (fst (query_adjustments kind s e db)))"
  by (simp add: query_adjustments_def distinct_group_sum)

section \<open>The report in closed form\<close>

lemma fillna_Pair: "fillna (map_option snd (map_option (Pair k) m)) = fillna m"
  by (cases m) (simp_all add: fillna_def)

lemma fillna_None: "fillna None = 0"
  by (simp add: fillna_def)

lemma merged_row:
  fixes H B D :: "(int \<times> real) list"
  defines "h \<equiv> \<lambda>i. map_option (Pair i) (map_of H i)"
  defines "b \<equiv> \<lambda>r. case employee_id_column1 r of None \<Rightarrow> None
                     | Some k \<Rightarrow> map_option (Pair k) (map_of B k)"
  defines "d \<equiv> \<lambda>r. case employee_id_column2 r of None \<Rightarrow> None
                     | Some k \<Rightarrow> map_option (Pair k) (map_of D k)"
  shows "payroll_columns ((((i, n, r), h i), b ((i, n, r), h i)),
            d (((i, n, r), h i), b ((i, n, r), h i))) =
     \<lparr>full_name = n, hourly_rate = r, total_hours = fillna (map_of H i),
      gross_pay = fillna (map_of H i) * r,
      bonus_total = (if map_of H i = None then 0 else fillna (map_of B i)),
      deduction_total = (if map_of H i = None then 0 else fillna (map_of D i)),
      net_pay = fillna (map_of H i) * r
         + (if map_of H i = None then 0 else fillna (map_of B i))
         - (if map_of H i = None then 0 else fillna (map_of D i))\<rparr>"
  by (cases "map_of H i")
     (simp_all add: h_def b_def d_def payroll_columns_def employee_id_column1_def
        employee_id_column2_def Let_def fillna_Pair fillna_None)

lemma calculate_payroll_rows:
  "fst (calculate_payroll srt s e db) =
     (if employees db = [] then [] else srt (map (report_row s e db) (employees db)))"
proof (cases "employees db = []")
  case True
  then show ?thesis
    by (simp add: calculate_payroll_def query_employees_def)
next
  case False
  let ?H = "fst (query_hours s e db)"
  let ?B = "fst (query_bonuses s e db)"
  let ?D = "fst (query_deductions s e db)"
  let ?emps = "fst (query_employees db)"
  have dH: "distinct (map fst ?H)" and dB: "distinct (map fst ?B)"
    and dD: "distinct (map fst ?D)"
    by (simp_all add: query_bonuses_def query_deductions_def distinct_query_hours
        distinct_query_adjustments)
  have rows: "fst (calculate_payroll srt s e db) =
     srt (map payroll_columns
       (merge_left employee_id_column2
         (merge_left employee_id_column1 (merge_left (\<lambda>e. Some (fst e)) ?emps ?H) ?B) ?D))"
    using False
    by (simp add: calculate_payroll_def Let_def split_beta query_bonuses_def
        query_deductions_def query_employees_def query_hours_def query_adjustments_def)
  have agg:
    "fillna (map_of ?H k) = sum_list (hours_in s e db k)"
    "fillna (map_of ?B k) = sum_list (amounts_in ''bonus'' s e db k)"
    "fillna (map_of ?D k) = sum_list (amounts_in ''deduction'' s e db k)" for k
    using query_hours_aggregate [of s e db k]
      query_adjustments_aggregate [of "''bonus''" s e db k]
      query_adjustments_aggregate [of "''deduction''" s e db k]
    by (simp_all add: aggregate_of_def query_bonuses_def query_deductions_def)
  have "map payroll_columns
       (merge_left employee_id_column2
         (merge_left employee_id_column1 (merge_left (\<lambda>e. Some (fst e)) ?emps ?H) ?B) ?D) =
     map (report_row s e db) (employees db)"
    unfolding merge_left_distinct [OF dD] merge_left_distinct [OF dB]
      merge_left_distinct [OF dH] query_employees_def fst_conv
      list.map_comp comp_def option.case merged_row
    by (simp add: agg query_hours_absent report_row_def Let_def)
  with rows False show ?thesis by simp
qed

lemma calculate_payroll_rows_sorted:
  assumes "sorts_by full_name srt"
  shows "fst (calculate_payroll srt s e db) = srt (map (report_row s e db) (employees db))"
proof (cases "employees db = []")
  case True
  have "mset (srt []) = {#}" using sorts_by_mset [OF assms, of "[]"] by simp
  then have "srt [] = []" by simp
  with True show ?thesis by (simp add: calculate_payroll_rows)
next
  case False
  then show ?thesis by (simp add: calculate_payroll_rows)
qed

section \<open>The concrete stores\<close>

lemma example_db_eq:
  "example_db =
     \<lparr>employees =
        [\<lparr>emp_id = 1, emp_full_name = ''A'', role_title = ''clerk'', emp_hourly_rate = 10,
          emp_start_date = 1\<rparr>,
         \<lparr>emp_id = 2, emp_full_name = ''B'', role_title = ''clerk'', emp_hourly_rate = 20,
          emp_start_date = 1\<rparr>],
      work_hours =
        [\<lparr>wh_id = 1, wh_employee_id = 1, work_date = 1, hours = 8, wh_notes = None\<rparr>,
         \<lparr>wh_id = 2, wh_employee_id = 1, work_date = 2, hours = 2, wh_notes = None\<rparr>],
      adjustments =
        [\<lparr>adj_id = 1, adj_employee_id = 1, adjustment_date = 1, adjustment_type = ''bonus'',
          amount = 50, description = None\<rparr>,
         \<lparr>adj_id = 2, adj_employee_id = 1, adjustment_date = 2,
          adjustment_type = ''deduction'', amount = 5, description = None\<rparr>]\<rparr>"
  by (simp add: example_db_def add_adjustment_def add_work_hours_def add_employee_def
      init_db_def next_rowid_def)


lemma example_report:
  "fst (calculate_payroll stable_sort_values 1 2 example_db) =
     [\<lparr>full_name = ''A'', hourly_rate = 10, total_hours = 10, gross_pay = 100,
       bonus_total = 50, deduction_total = 5, net_pay = 145\<rparr>,
      \<lparr>full_name = ''B'', hourly_rate = 20, total_hours = 0, gross_pay = 0,
       bonus_total = 0, deduction_total = 0, net_pay = 0\<rparr>]"
  by (simp add: calculate_payroll_rows example_db_eq report_row_def hours_in_def
      amounts_in_def sql_between_def stable_sort_values_def)

lemma report_row_no_hours:
  "hours_in s e db (emp_id emp) = [] \<Longrightarrow> report_row s e db emp = zero_row emp"
  by (simp add: report_row_def zero_row_def)

section \<open>Sums over ranges\<close>






lemma sum_remove1:
  fixes f :: "'a \<Rightarrow> real"
  shows "x \<in> set xs \<Longrightarrow> P x \<Longrightarrow>
    sum_list (map f (filter P xs)) = f x + sum_list (map f (filter P (remove1 x xs)))"
  by (induction xs) auto

lemma mset_filter_conj:
  assumes "mset (filter P xs) = mset (filter P ys)"
  shows "mset (map f (filter (\<lambda>x. P x \<and> Q x) xs)) = mset (map f (filter (\<lambda>x. P x \<and> Q x) ys))"
proof -
  have "mset (filter (\<lambda>x. P x \<and> Q x) zs) = filter_mset Q (mset (filter P zs))" for zs
    by (induction zs) auto
  with assms show ?thesis by simp
qed

lemma mset_eq_sum_list:
  fixes xs ys :: "real list"
  shows "mset xs = mset ys \<Longrightarrow> sum_list xs = sum_list ys"
  by (metis sum_mset_sum_list)

lemma mset_eq_Nil: "mset xs = mset ys \<Longrightarrow> xs = [] \<longleftrightarrow> ys = []"
  by (metis mset_zero_iff)

section \<open>The claims\<close>



text \<open>
  C8. \<^const>\<open>calculate_payroll\<close> only reads: for every store and every date range the store
  it leaves behind, with its three tables, is the store it was given.
\<close>

theorem calculate_payroll_read_only:
  "snd (calculate_payroll sort_values start_date end_date db) = db"
  by (simp add: calculate_payroll_def Let_def split_beta query_employees_def query_hours_def
      query_bonuses_def query_deductions_def query_adjustments_def)

text \<open>
  C2. For every roster and every date range the report has exactly one row for each
  employee of the roster, and an employee with no work-hour entry and no adjustment entry
  in the range gets the row with \<^verbatim>\<open>total_hours\<close>, \<^verbatim>\<open>gross_pay\<close>, \<^verbatim>\<open>bonus_total\<close>,
  \<^verbatim>\<open>deduction_total\<close> and \<^verbatim>\<open>net_pay\<close> all 0.
\<close>

theorem payroll_row_per_employee:
  assumes "sorts_by full_name sort_values"
  shows "length (fst (calculate_payroll sort_values start_date end_date db)) =
           length (employees db) \<and>
         mset (fst (calculate_payroll sort_values start_date end_date db)) =
           image_mset (report_row start_date end_date db) (mset (employees db)) \<and>
         (\<forall>emp \<in> set (employees db).
            (\<forall>w \<in> set (work_hours db). wh_employee_id w = emp_id emp \<longrightarrow>
                 \<not> sql_between (work_date w) start_date end_date) \<longrightarrow>
            (\<forall>a \<in> set (adjustments db). adj_employee_id a = emp_id emp \<longrightarrow>
                 \<not> sql_between (adjustment_date a) start_date end_date) \<longrightarrow>
            zero_row emp \<in> set (fst (calculate_payroll sort_values start_date end_date db)))"
proof -
  let ?report = "fst (calculate_payroll sort_values start_date end_date db)"
  have rows: "?report = sort_values (map (report_row start_date end_date db) (employees db))"
    by (rule calculate_payroll_rows_sorted [OF assms])
  have len: "length ?report = length (employees db)"
    by (simp add: rows sorts_by_length [OF assms])
  have perm: "mset ?report = image_mset (report_row start_date end_date db) (mset (employees db))"
    by (simp add: rows sorts_by_mset [OF assms])
  have idle: "zero_row emp \<in> set ?report"
    if emp: "emp \<in> set (employees db)"
      and no_hours: "\<forall>w \<in> set (work_hours db). wh_employee_id w = emp_id emp \<longrightarrow>
                 \<not> sql_between (work_date w) start_date end_date"
    for emp
  proof -
    from no_hours have "hours_in start_date end_date db (emp_id emp) = []"
      by (auto simp: hours_in_def filter_empty_conv)
    then have "report_row start_date end_date db emp = zero_row emp"
      by (rule report_row_no_hours)
    with emp show ?thesis
      by (force simp: rows sorts_by_set [OF assms])
  qed
  from len perm idle show ?thesis by blast
qed

theorem payroll_row_per_employee_witness:
  "sorts_by full_name stable_sort_values \<and>
   length (fst (calculate_payroll stable_sort_values 1 2 example_db)) = 2 \<and>
   \<lparr>full_name = ''B'', hourly_rate = 20, total_hours = 0, gross_pay = 0, bonus_total = 0,
     deduction_total = 0, net_pay = 0\<rparr>
     \<in> set (fst (calculate_payroll stable_sort_values 1 2 example_db))"
proof -
  let ?b = "\<lparr>emp_id = 2, emp_full_name = ''B'', role_title = ''clerk'', emp_hourly_rate = 20,
             emp_start_date = 1\<rparr>"
  note inst = payroll_row_per_employee [OF sorts_by_stable, of 1 2 example_db]
  have b: "?b \<in> set (employees example_db)"
    by (simp add: example_db_eq)
  have h: "\<forall>w \<in> set (work_hours example_db). wh_employee_id w = emp_id ?b \<longrightarrow>
             \<not> sql_between (work_date w) 1 2"
    by (simp add: example_db_eq)
  have a: "\<forall>a \<in> set (adjustments example_db). adj_employee_id a = emp_id ?b \<longrightarrow>
             \<not> sql_between (adjustment_date a) 1 2"
    by (simp add: example_db_eq)
  from inst b h a
  have "zero_row ?b \<in> set (fst (calculate_payroll stable_sort_values 1 2 example_db))"
    by blast
  moreover from inst
  have "length (fst (calculate_payroll stable_sort_values 1 2 example_db)) =
          length (employees example_db)"
    by blast
  ultimately show ?thesis
    using sorts_by_stable by (simp add: zero_row_def example_db_eq)
qed

text \<open>
  C3, as the code has it. On a reversed range (start date after end date) the entry layer,
  \<^const>\<open>render_payroll_section\<close>, shows its error box, leaves the store alone and does not
  call the calculator, so no report is shown. \<^const>\<open>calculate_payroll\<close> itself checks
  nothing: called on a reversed range it returns the report in which every employee of
  the roster has the row of zeros.
\<close>

theorem reversed_range:
  assumes "end_date < start_date"
    and "sorts_by full_name sort_values"
  shows "render_payroll_section sort_values order_hours order_adjustments
             start_date end_date db =
           (St_error ''La fecha de inicio no puede ser mayor que la fecha fin.'', db) \<and>
         fst (calculate_payroll sort_values start_date end_date db) =
           sort_values (map zero_row (employees db))"
proof -
  have "hours_in start_date end_date db k = []" for k
    using assms(1) by (auto simp: hours_in_def sql_between_def filter_empty_conv)
  then have "report_row start_date end_date db emp = zero_row emp" for emp
    by (rule report_row_no_hours)
  then have "map (report_row start_date end_date db) (employees db) =
      map zero_row (employees db)"
    by simp
  with calculate_payroll_rows_sorted [OF assms(2), of start_date end_date db] assms(1)
  show ?thesis
    by (simp add: render_payroll_section_def)
qed

theorem reversed_range_witness:
  "(1::int) < 2 \<and> sorts_by full_name stable_sort_values \<and>
   render_payroll_section stable_sort_values id id 2 1 example_db =
     (St_error ''La fecha de inicio no puede ser mayor que la fecha fin.'', example_db) \<and>
   fst (calculate_payroll stable_sort_values 2 1 example_db) =
     stable_sort_values (map zero_row (employees example_db))"
proof -
  have lt: "(1::int) < 2" by simp
  from reversed_range [OF lt sorts_by_stable, of id id example_db] lt sorts_by_stable
  show ?thesis by simp
qed

text \<open>
  C3, as the claim states it, fails: on the reversed range from day 2 to day 1 the
  calculator on the example store raises nothing and returns two rows.
\<close>

theorem reversed_range_counterexample:
  "(1::int) < 2 \<and>
   fst (calculate_payroll stable_sort_values 2 1 example_db) =
     [\<lparr>full_name = ''A'', hourly_rate = 10, total_hours = 0, gross_pay = 0,
       bonus_total = 0, deduction_total = 0, net_pay = 0\<rparr>,
      \<lparr>full_name = ''B'', hourly_rate = 20, total_hours = 0, gross_pay = 0,
       bonus_total = 0, deduction_total = 0, net_pay = 0\<rparr>]"
  by (simp add: calculate_payroll_rows example_db_eq report_row_def hours_in_def
      amounts_in_def sql_between_def stable_sort_values_def)




text \<open>
  C5. The code does not do what the claim says: on the freshly initialised store, which
  has no employee, \<^const>\<open>add_work_hours\<close> and \<^const>\<open>add_adjustment\<close> for employee id 7 raise
  nothing and store the entry.
\<close>

theorem add_entry_unknown_employee:
  "add_work_hours 7 1 8 None init_db =
     \<lparr>employees = [],
      work_hours = [\<lparr>wh_id = 1, wh_employee_id = 7, work_date = 1, hours = 8,
                      wh_notes = None\<rparr>],
      adjustments = []\<rparr> \<and>
   add_adjustment 7 1 ''bonus'' 50 None init_db =
     \<lparr>employees = [], work_hours = [],
      adjustments = [\<lparr>adj_id = 1, adj_employee_id = 7, adjustment_date = 1,
                       adjustment_type = ''bonus'', amount = 50, description = None\<rparr>]\<rparr>"
  by (simp add: add_work_hours_def add_adjustment_def init_db_def next_rowid_def)



text \<open>
  C7. The range-filtered reads include both endpoints. For a range that is not reversed,
  an entry dated on the start date or on the end date is in the result of
  \<^const>\<open>load_work_hours\<close> or \<^const>\<open>load_adjustments\<close>, joined with its employee, and it is
  counted in the sum of the aggregation query for its employee: without the entry the sum
  is smaller by exactly its hours or its amount.
\<close>

theorem range_reads_inclusive:
  assumes "start_date \<le> end_date"
    and "sorts_by v_work_date order_hours"
    and "sorts_by a_adjustment_date order_adjustments"
  shows "(\<forall>w \<in> set (work_hours db).
            work_date w = start_date \<or> work_date w = end_date \<longrightarrow>
            (\<forall>emp \<in> set (employees db). emp_id emp = wh_employee_id w \<longrightarrow>
               \<lparr>v_id = wh_id w, v_full_name = emp_full_name emp,
                 v_employee_id = wh_employee_id w, v_work_date = work_date w,
                 v_hours = hours w, v_notes = wh_notes w\<rparr>
               \<in> set (fst (load_work_hours order_hours start_date end_date db))) \<and>
            aggregate_of (fst (query_hours start_date end_date db)) (wh_employee_id w) =
              hours w +
              aggregate_of (fst (query_hours start_date end_date
                (db\<lparr>work_hours := remove1 w (work_hours db)\<rparr>))) (wh_employee_id w)) \<and>
         (\<forall>a \<in> set (adjustments db).
            adjustment_date a = start_date \<or> adjustment_date a = end_date \<longrightarrow>
            (\<forall>emp \<in> set (employees db). emp_id emp = adj_employee_id a \<longrightarrow>
               \<lparr>a_id = adj_id a, a_full_name = emp_full_name emp,
                 a_employee_id = adj_employee_id a,
                 a_adjustment_date = adjustment_date a,
                 a_adjustment_type = adjustment_type a, a_amount = amount a,
                 a_description = description a\<rparr>
               \<in> set (fst (load_adjustments order_adjustments start_date end_date db))) \<and>
            (adjustment_type a = ''bonus'' \<longrightarrow>
               aggregate_of (fst (query_bonuses start_date end_date db)) (adj_employee_id a) =
                 amount a +
                 aggregate_of (fst (query_bonuses start_date end_date
                   (db\<lparr>adjustments := remove1 a (adjustments db)\<rparr>))) (adj_employee_id a)) \<and>
            (adjustment_type a = ''deduction'' \<longrightarrow>
               aggregate_of (fst (query_deductions start_date end_date db)) (adj_employee_id a) =
                 amount a +
                 aggregate_of (fst (query_deductions start_date end_date
                   (db\<lparr>adjustments := remove1 a (adjustments db)\<rparr>))) (adj_employee_id a)))"
proof -
  have inside: "sql_between d start_date end_date" if "d = start_date \<or> d = end_date" for d
    using that assms(1) by (auto simp: sql_between_def)
  have hours_view:
    "\<lparr>v_id = wh_id w, v_full_name = emp_full_name emp, v_employee_id = wh_employee_id w,
      v_work_date = work_date w, v_hours = hours w, v_notes = wh_notes w\<rparr>
       \<in> set (fst (load_work_hours order_hours start_date end_date db))"
    if "w \<in> set (work_hours db)" "work_date w = start_date \<or> work_date w = end_date"
      "emp \<in> set (employees db)" "emp_id emp = wh_employee_id w" for w emp
    using that inside [OF that(2)]
    by (force simp: load_work_hours_def sorts_by_set [OF assms(2)])
  have hours_sum:
    "aggregate_of (fst (query_hours start_date end_date db)) (wh_employee_id w) =
       hours w + aggregate_of (fst (query_hours start_date end_date
         (db\<lparr>work_hours := remove1 w (work_hours db)\<rparr>))) (wh_employee_id w)"
    if "w \<in> set (work_hours db)" "work_date w = start_date \<or> work_date w = end_date" for w
    using sum_remove1 [of w "work_hours db"
        "\<lambda>x. sql_between (work_date x) start_date end_date \<and>
              wh_employee_id x = wh_employee_id w" hours]
      that(1) inside [OF that(2)]
    by (simp add: query_hours_aggregate hours_in_def)
  have adj_view:
    "\<lparr>a_id = adj_id a, a_full_name = emp_full_name emp, a_employee_id = adj_employee_id a,
      a_adjustment_date = adjustment_date a, a_adjustment_type = adjustment_type a,
      a_amount = amount a, a_description = description a\<rparr>
       \<in> set (fst (load_adjustments order_adjustments start_date end_date db))"
    if "a \<in> set (adjustments db)"
      "adjustment_date a = start_date \<or> adjustment_date a = end_date"
      "emp \<in> set (employees db)" "emp_id emp = adj_employee_id a" for a emp
    using that inside [OF that(2)]
    by (force simp: load_adjustments_def sorts_by_set [OF assms(3)])
  have adj_sum:
    "aggregate_of (fst (query_adjustments (adjustment_type a) start_date end_date db))
         (adj_employee_id a) =
       amount a + aggregate_of (fst (query_adjustments (adjustment_type a) start_date end_date
         (db\<lparr>adjustments := remove1 a (adjustments db)\<rparr>))) (adj_employee_id a)"
    if "a \<in> set (adjustments db)"
      "adjustment_date a = start_date \<or> adjustment_date a = end_date" for a
    using sum_remove1 [of a "adjustments db"
        "\<lambda>x. (sql_between (adjustment_date x) start_date end_date \<and>
               adjustment_type x = adjustment_type a) \<and>
              adj_employee_id x = adj_employee_id a" amount]
      that(1) inside [OF that(2)]
    by (simp add: query_adjustments_aggregate amounts_in_def)
  show ?thesis
  proof (intro conjI ballI impI)
    fix w emp
    assume "w \<in> set (work_hours db)" "work_date w = start_date \<or> work_date w = end_date"
      "emp \<in> set (employees db)" "emp_id emp = wh_employee_id w"
    then show "\<lparr>v_id = wh_id w, v_full_name = emp_full_name emp,
        v_employee_id = wh_employee_id w, v_work_date = work_date w, v_hours = hours w,
        v_notes = wh_notes w\<rparr>
       \<in> set (fst (load_work_hours order_hours start_date end_date db))"
      by (rule hours_view)
  next
    fix w
    assume "w \<in> set (work_hours db)" "work_date w = start_date \<or> work_date w = end_date"
    then show "aggregate_of (fst (query_hours start_date end_date db)) (wh_employee_id w) =
       hours w + aggregate_of (fst (query_hours start_date end_date
         (db\<lparr>work_hours := remove1 w (work_hours db)\<rparr>))) (wh_employee_id w)"
      by (rule hours_sum)
  next
    fix a emp
    assume "a \<in> set (adjustments db)"
      "adjustment_date a = start_date \<or> adjustment_date a = end_date"
      "emp \<in> set (employees db)" "emp_id emp = adj_employee_id a"
    then show "\<lparr>a_id = adj_id a, a_full_name = emp_full_name emp,
        a_employee_id = adj_employee_id a, a_adjustment_date = adjustment_date a,
        a_adjustment_type = adjustment_type a, a_amount = amount a,
        a_description = description a\<rparr>
       \<in> set (fst (load_adjustments order_adjustments start_date end_date db))"
      by (rule adj_view)
  next
    fix a
    assume "a \<in> set (adjustments db)"
      "adjustment_date a = start_date \<or> adjustment_date a = end_date"
      "adjustment_type a = ''bonus''"
    with adj_sum [of a]
    show "aggregate_of (fst (query_bonuses start_date end_date db)) (adj_employee_id a) =
       amount a + aggregate_of (fst (query_bonuses start_date end_date
         (db\<lparr>adjustments := remove1 a (adjustments db)\<rparr>))) (adj_employee_id a)"
      by (simp add: query_bonuses_def)
  next
    fix a
    assume "a \<in> set (adjustments db)"
      "adjustment_date a = start_date \<or> adjustment_date a = end_date"
      "adjustment_type a = ''deduction''"
    with adj_sum [of a]
    show "aggregate_of (fst (query_deductions start_date end_date db)) (adj_employee_id a) =
       amount a + aggregate_of (fst (query_deductions start_date end_date
         (db\<lparr>adjustments := remove1 a (adjustments db)\<rparr>))) (adj_employee_id a)"
      by (simp add: query_deductions_def)
  qed
qed

theorem range_reads_inclusive_witness:
  "(1::int) \<le> 2 \<and> sorts_by v_work_date order_by_work_date \<and>
   sorts_by a_adjustment_date order_by_adjustment_date \<and>
   \<lparr>v_id = 1, v_full_name = ''A'', v_employee_id = 1, v_work_date = 1, v_hours = 8,
     v_notes = None\<rparr> \<in> set (fst (load_work_hours order_by_work_date 1 2 example_db)) \<and>
   aggregate_of (fst (query_hours 1 2 example_db)) 1 =
     8 + aggregate_of (fst (query_hours 1 2 (example_db\<lparr>work_hours :=
           [\<lparr>wh_id = 2, wh_employee_id = 1, work_date = 2, hours = 2,
             wh_notes = None\<rparr>]\<rparr>))) 1 \<and>
   \<lparr>a_id = 2, a_full_name = ''A'', a_employee_id = 1, a_adjustment_date = 2,
     a_adjustment_type = ''deduction'', a_amount = 5, a_description = None\<rparr>
     \<in> set (fst (load_adjustments order_by_adjustment_date 1 2 example_db)) \<and>
   aggregate_of (fst (query_deductions 1 2 example_db)) 1 =
     5 + aggregate_of (fst (query_deductions 1 2 (example_db\<lparr>adjustments :=
           [\<lparr>adj_id = 1, adj_employee_id = 1, adjustment_date = 1,
             adjustment_type = ''bonus'', amount = 50, description = None\<rparr>]\<rparr>))) 1"
proof -
  let ?w = "\<lparr>wh_id = 1, wh_employee_id = 1, work_date = 1, hours = 8, wh_notes = None\<rparr>"
  let ?a = "\<lparr>adj_id = 2, adj_employee_id = 1, adjustment_date = 2,
             adjustment_type = ''deduction'', amount = 5, description = None\<rparr>"
  let ?emp = "\<lparr>emp_id = 1, emp_full_name = ''A'', role_title = ''clerk'',
               emp_hourly_rate = 10, emp_start_date = 1\<rparr>"
  have le: "(1::int) \<le> 2" by simp
  have oh: "sorts_by v_work_date order_by_work_date"
    by (simp add: order_by_work_date_def sorts_by_sort_key)
  have oa: "sorts_by a_adjustment_date order_by_adjustment_date"
    by (simp add: order_by_adjustment_date_def sorts_by_sort_key)
  note inst = range_reads_inclusive [OF le oh oa, of example_db]
  have w: "?w \<in> set (work_hours example_db)" and wd: "work_date ?w = 1 \<or> work_date ?w = 2"
    by (simp_all add: example_db_eq)
  have a: "?a \<in> set (adjustments example_db)"
    and ad: "adjustment_date ?a = 1 \<or> adjustment_date ?a = 2"
    by (simp_all add: example_db_eq)
  have emp: "?emp \<in> set (employees example_db)"
    by (simp add: example_db_eq)
  note hours_part = inst [THEN conjunct1, THEN bspec, OF w, THEN mp, OF wd]
  note adj_part = inst [THEN conjunct2, THEN bspec, OF a, THEN mp, OF ad]
  have rw: "remove1 ?w (work_hours example_db) =
      [\<lparr>wh_id = 2, wh_employee_id = 1, work_date = 2, hours = 2, wh_notes = None\<rparr>]"
    by (simp add: example_db_eq)
  have ra: "remove1 ?a (adjustments example_db) =
      [\<lparr>adj_id = 1, adj_employee_id = 1, adjustment_date = 1,
        adjustment_type = ''bonus'', amount = 50, description = None\<rparr>]"
    by (simp add: example_db_eq)
  from hours_part [THEN conjunct1, THEN bspec, OF emp]
  have c1: "\<lparr>v_id = 1, v_full_name = ''A'', v_employee_id = 1, v_work_date = 1, v_hours = 8,
     v_notes = None\<rparr> \<in> set (fst (load_work_hours order_by_work_date 1 2 example_db))"
    by simp
  from hours_part [THEN conjunct2]
  have c2: "aggregate_of (fst (query_hours 1 2 example_db)) 1 =
     8 + aggregate_of (fst (query_hours 1 2 (example_db\<lparr>work_hours :=
           [\<lparr>wh_id = 2, wh_employee_id = 1, work_date = 2, hours = 2,
             wh_notes = None\<rparr>]\<rparr>))) 1"
    by (simp add: rw)
  from adj_part [THEN conjunct1, THEN bspec, OF emp]
  have c3: "\<lparr>a_id = 2, a_full_name = ''A'', a_employee_id = 1, a_adjustment_date = 2,
     a_adjustment_type = ''deduction'', a_amount = 5, a_description = None\<rparr>
     \<in> set (fst (load_adjustments order_by_adjustment_date 1 2 example_db))"
    by simp
  from adj_part [THEN conjunct2, THEN conjunct2]
  have c4: "aggregate_of (fst (query_deductions 1 2 example_db)) 1 =
     5 + aggregate_of (fst (query_deductions 1 2 (example_db\<lparr>adjustments :=
           [\<lparr>adj_id = 1, adj_employee_id = 1, adjustment_date = 1,
             adjustment_type = ''bonus'', amount = 50, description = None\<rparr>]\<rparr>))) 1"
    by (simp add: ra)
  from le oh oa c1 c2 c3 c4 show ?thesis by blast
qed

text \<open>
  C10. Entries dated outside the range never influence the report: two stores with the
  same roster and, in the range, the same work-hour entries and the same adjustment
  entries (each as often in the one store as in the other, in any order) give the same
  report, whatever entries they hold outside the range.
\<close>

theorem out_of_range_entries_irrelevant:
  assumes "employees db1 = employees db2"
    and "mset (filter (\<lambda>w. sql_between (work_date w) start_date end_date) (work_hours db1)) =
         mset (filter (\<lambda>w. sql_between (work_date w) start_date end_date) (work_hours db2))"
    and "mset (filter (\<lambda>a. sql_between (adjustment_date a) start_date end_date)
           (adjustments db1)) =
         mset (filter (\<lambda>a. sql_between (adjustment_date a) start_date end_date)
           (adjustments db2))"
  shows "fst (calculate_payroll sort_values start_date end_date db1) =
         fst (calculate_payroll sort_values start_date end_date db2)"
proof -
  have h: "mset (hours_in start_date end_date db1 k) = mset (hours_in start_date end_date db2 k)"
    for k
    unfolding hours_in_def by (rule mset_filter_conj [OF assms(2)])
  have a: "mset (amounts_in kind start_date end_date db1 k) =
      mset (amounts_in kind start_date end_date db2 k)" for kind k
    unfolding amounts_in_def conj_assoc by (rule mset_filter_conj [OF assms(3)])
  have "report_row start_date end_date db1 emp = report_row start_date end_date db2 emp"
    for emp
    using mset_eq_sum_list [OF h [of "emp_id emp"]] mset_eq_Nil [OF h [of "emp_id emp"]]
      mset_eq_sum_list [OF a [of "''bonus''" "emp_id emp"]]
      mset_eq_sum_list [OF a [of "''deduction''" "emp_id emp"]]
    by (simp add: report_row_def Let_def)
  then have "report_row start_date end_date db1 = report_row start_date end_date db2"
    by (rule ext)
  then show ?thesis
    by (simp add: calculate_payroll_rows assms(1))
qed

theorem out_of_range_entries_irrelevant_witness:
  "employees later_entries_db = employees example_db \<and>
   work_hours later_entries_db \<noteq> work_hours example_db \<and>
   adjustments later_entries_db \<noteq> adjustments example_db \<and>
   fst (calculate_payroll stable_sort_values 1 2 later_entries_db) =
   fst (calculate_payroll stable_sort_values 1 2 example_db)"
proof -
  have later: "later_entries_db =
      example_db\<lparr>work_hours := work_hours example_db @
          [\<lparr>wh_id = 3, wh_employee_id = 1, work_date = 9, hours = 4, wh_notes = None\<rparr>],
        adjustments := adjustments example_db @
          [\<lparr>adj_id = 3, adj_employee_id = 1, adjustment_date = 9,
            adjustment_type = ''bonus'', amount = 7, description = None\<rparr>]\<rparr>"
    by (simp add: later_entries_db_def add_adjustment_def add_work_hours_def example_db_eq
        next_rowid_def)
  have e: "employees later_entries_db = employees example_db"
    by (simp add: later)
  have w: "mset (filter (\<lambda>w. sql_between (work_date w) 1 2) (work_hours later_entries_db)) =
      mset (filter (\<lambda>w. sql_between (work_date w) 1 2) (work_hours example_db))"
    by (simp add: later sql_between_def)
  have a: "mset (filter (\<lambda>a. sql_between (adjustment_date a) 1 2)
        (adjustments later_entries_db)) =
      mset (filter (\<lambda>a. sql_between (adjustment_date a) 1 2) (adjustments example_db))"
    by (simp add: later sql_between_def)
  from out_of_range_entries_irrelevant [OF e w a, of stable_sort_values] e
  show ?thesis by (simp add: later)
qed

section \<open>Further properties of the calculator\<close>

text \<open>
  X1. The report is the roster's rows, and the row of an employee with no work-hour entry in
  the range is the row of zeros whatever adjustments of the employee the range holds: the
  second and the third merge join on the \<^verbatim>\<open>employee_id\<close> column that the first merge took
  from \<^verbatim>\<open>hours\<close>, which is missing in the row of such an employee, so the bonus and deduction
  sums of the employee are not joined in.
\<close>

theorem adjustments_need_hours:
  assumes "sorts_by full_name sort_values"
    and "\<forall>w \<in> set (work_hours db). wh_employee_id w = emp_id emp \<longrightarrow>
           \<not> sql_between (work_date w) start_date end_date"
  shows "fst (calculate_payroll sort_values start_date end_date db) =
           sort_values (map (report_row start_date end_date db) (employees db)) \<and>
         report_row start_date end_date db emp = zero_row emp"
proof -
  from assms(2) have "hours_in start_date end_date db (emp_id emp) = []"
    by (auto simp: hours_in_def filter_empty_conv)
  then have "report_row start_date end_date db emp = zero_row emp"
    by (rule report_row_no_hours)
  with calculate_payroll_rows_sorted [OF assms(1)] show ?thesis by simp
qed

theorem adjustments_need_hours_witness:
  "sorts_by full_name stable_sort_values \<and>
   amounts_in ''bonus'' 1 2 bonus_only_db 2 = [30] \<and>
   fst (calculate_payroll stable_sort_values 1 2 bonus_only_db) =
     [\<lparr>full_name = ''A'', hourly_rate = 10, total_hours = 10, gross_pay = 100,
       bonus_total = 50, deduction_total = 5, net_pay = 145\<rparr>,
      \<lparr>full_name = ''B'', hourly_rate = 20, total_hours = 0, gross_pay = 0,
       bonus_total = 0, deduction_total = 0, net_pay = 0\<rparr>]"
proof -
  let ?a = "\<lparr>emp_id = 1, emp_full_name = ''A'', role_title = ''clerk'', emp_hourly_rate = 10,
             emp_start_date = 1\<rparr>"
  let ?b = "\<lparr>emp_id = 2, emp_full_name = ''B'', role_title = ''clerk'', emp_hourly_rate = 20,
             emp_start_date = 1\<rparr>"
  have db: "bonus_only_db =
      example_db\<lparr>adjustments := adjustments example_db @
        [\<lparr>adj_id = 3, adj_employee_id = 2, adjustment_date = 2,
          adjustment_type = ''bonus'', amount = 30, description = None\<rparr>]\<rparr>"
    by (simp add: bonus_only_db_def add_adjustment_def example_db_eq next_rowid_def)
  have idle: "\<forall>w \<in> set (work_hours bonus_only_db). wh_employee_id w = emp_id ?b \<longrightarrow>
           \<not> sql_between (work_date w) 1 2"
    by (simp add: db example_db_eq)
  have bonus: "amounts_in ''bonus'' 1 2 bonus_only_db 2 = [30]"
    by (simp add: amounts_in_def db example_db_eq sql_between_def)
  have row_a: "report_row 1 2 bonus_only_db ?a =
      \<lparr>full_name = ''A'', hourly_rate = 10, total_hours = 10, gross_pay = 100,
       bonus_total = 50, deduction_total = 5, net_pay = 145\<rparr>"
    by (simp add: report_row_def hours_in_def amounts_in_def db example_db_eq sql_between_def)
  have emps: "employees bonus_only_db = [?a, ?b]"
    by (simp add: db example_db_eq)
  from adjustments_need_hours [OF sorts_by_stable idle]
  have "fst (calculate_payroll stable_sort_values 1 2 bonus_only_db) =
      stable_sort_values [report_row 1 2 bonus_only_db ?a, zero_row ?b]"
    by (simp add: emps)
  then have "fst (calculate_payroll stable_sort_values 1 2 bonus_only_db) =
     [\<lparr>full_name = ''A'', hourly_rate = 10, total_hours = 10, gross_pay = 100,
       bonus_total = 50, deduction_total = 5, net_pay = 145\<rparr>,
      \<lparr>full_name = ''B'', hourly_rate = 20, total_hours = 0, gross_pay = 0,
       bonus_total = 0, deduction_total = 0, net_pay = 0\<rparr>]"
    by (simp add: row_a zero_row_def stable_sort_values_def)
  with sorts_by_stable bonus show ?thesis by blast
qed

text \<open>
  X2. The examples of the spec: on the example store the report for days 1 to 2 is the row of
  employee A with 10 hours, gross pay 100, bonus 50, deduction 5 and net pay 145, and the
  row of zeros of employee B; on an empty roster the report is empty.
\<close>

theorem spec_examples:
  "fst (calculate_payroll stable_sort_values 1 2 example_db) =
     [\<lparr>full_name = ''A'', hourly_rate = 10, total_hours = 10, gross_pay = 100,
       bonus_total = 50, deduction_total = 5, net_pay = 145\<rparr>,
      \<lparr>full_name = ''B'', hourly_rate = 20, total_hours = 0, gross_pay = 0,
       bonus_total = 0, deduction_total = 0, net_pay = 0\<rparr>] \<and>
   fst (calculate_payroll sort_values start_date end_date (db\<lparr>employees := []\<rparr>)) = []"
proof -
  have "fst (calculate_payroll sort_values start_date end_date (db\<lparr>employees := []\<rparr>)) = []"
    by (simp add: calculate_payroll_rows)
  with example_report show ?thesis by simp
qed

end
